theory Spec2Isabelle
  imports Complex_Main "HOL-Library.Sublist"
begin

section \<open>Floats\<close>

text \<open>
  A Python float is a double, and the model takes it as the real number it denotes. An
  arithmetic operation on floats gives the double nearest to the exact result, a tie
  going to the even mantissa: \<open>round_double\<close> is this rounding, with 53 bits of
  mantissa and the gradual underflow below the exponent \<open>-1022\<close>. Results beyond the
  largest double are not modelled; the products and quotients of the scripts stay far
  below it.
\<close>

definition round_half_even :: "real \<Rightarrow> int" where
  "round_half_even x =
     (let f = \<lfloor>x\<rfloor>; r = x - of_int f
      in if r < 1 / 2 then f else if r > 1 / 2 then f + 1 else if even f then f else f + 1)"

definition double_exponent :: "real \<Rightarrow> int" where
  "double_exponent x = max (\<lfloor>log 2 \<bar>x\<bar>\<rfloor> - 52) (- 1074)"

definition round_double :: "real \<Rightarrow> real" where
  "round_double x =
     (if x = 0 then 0
      else of_int (round_half_even (x / 2 powi double_exponent x)) * 2 powi double_exponent x)"

section \<open>KYC fraud detection script (kyc-service/internal/ai/fraud\_detection.py)\<close>

text \<open>
  The floats of this script are real numbers, neither NaN nor infinite; the product of
  the probability and 100 is rounded to a double. Python strings are \<open>string\<close>.
\<close>

datatype failure = Exit nat | Raised string

text \<open>
  \<open>Exit n\<close> is \<open>sys.exit(n)\<close> after the script has printed its message;
  \<open>Raised c\<close> is an exception of class \<open>c\<close> that the script does not catch.
\<close>

type_synonym frame = "(string \<times> real) list"

text \<open>
  A one-row data frame with numeric cells: the columns in order, each with the value of
  its only row. The features object of a request is the record below: its numeric
  entries in the order of the JSON object, and the two entries the script reads as
  text.
\<close>

record features =
  numeric :: frame
  transaction_time :: "string option"
  document_type :: "string option"

text \<open>
  The library calls of the script are parameters of the model: \<open>json_loads\<close> is
  \<open>json.loads\<close> (\<open>None\<close> when it raises \<open>JSONDecodeError\<close>), \<open>to_datetime\<close> gives
  \<open>.dt.hour\<close> and \<open>.dt.dayofweek\<close> of \<open>pd.to_datetime\<close> (\<open>None\<close> when it raises),
  \<open>log1p\<close> is \<open>np.log1p\<close>, \<open>transform\<close> is the \<open>transform\<close> method of the loaded
  scaler, and \<open>predict_proba\<close> and \<open>predict\<close> are the methods of the loaded
  classifier, each on the single row of the request.
\<close>

record ('m, 's) library =
  json_loads :: "string \<Rightarrow> features option"
  to_datetime :: "string \<Rightarrow> (real \<times> real) option"
  log1p :: "real \<Rightarrow> real"
  transform :: "'s \<Rightarrow> frame \<Rightarrow> failure + real list"
  predict_proba :: "'m \<Rightarrow> real list \<Rightarrow> failure + real list"
  predict :: "'m \<Rightarrow> real list \<Rightarrow> failure + int"

text \<open>
  The files of the script: \<open>joblib.load\<close> of a path gives the stored pair of
  classifier and scaler, or raises (\<open>None\<close>).
\<close>

type_synonym ('m, 's) store = "string \<Rightarrow> ('m \<times> 's) option"

definition load_model :: "('m, 's) store \<Rightarrow> string \<Rightarrow> failure + ('m \<times> 's)" where
  "load_model files model_path =
     (case files model_path of
        None \<Rightarrow> Inl (Exit 1)
      | Some (model, scaler) \<Rightarrow> Inr (model, scaler))"

definition columns :: "frame \<Rightarrow> string list" where
  "columns df = map fst df"

fun set_column :: "frame \<Rightarrow> string \<Rightarrow> real \<Rightarrow> frame" where
  "set_column [] c v = [(c, v)]"
| "set_column ((k, x) # df) c v =
     (if k = c then (k, v) # df else (k, x) # set_column df c v)"

definition startswith :: "string \<Rightarrow> string \<Rightarrow> bool" where
  "startswith s p = (take (length p) s = p)"

definition select_columns :: "frame \<Rightarrow> string list \<Rightarrow> frame" where
  "select_columns df cols = concat (map (\<lambda>c. filter (\<lambda>kv. fst kv = c) df) cols)"

definition feature_columns :: "string list" where
  "feature_columns =
     [''transaction_amount'', ''log_amount'', ''hour_of_day'', ''day_of_week'',
      ''transaction_frequency'', ''user_age'', ''account_age'', ''previous_fraud_reports'',
      ''document_quality'', ''document_age'', ''country_risk_score'', ''ip_risk_score'',
      ''login_attempts'', ''failed_logins'']"

definition time_features :: "('m, 's) library \<Rightarrow> features \<Rightarrow> frame \<Rightarrow> failure + frame" where
  "time_features L fs df =
     (case transaction_time fs of
        None \<Rightarrow> Inr df
      | Some t \<Rightarrow>
          (case to_datetime L t of
             None \<Rightarrow> Inl (Raised ''ValueError'')
           | Some (hour, dayofweek) \<Rightarrow>
               Inr (set_column (set_column df ''hour_of_day'' hour) ''day_of_week'' dayofweek)))"

definition derived_features :: "('m, 's) library \<Rightarrow> frame \<Rightarrow> frame" where
  "derived_features L df =
     (case map_of df ''transaction_amount'' of
        None \<Rightarrow> df
      | Some amount \<Rightarrow> set_column df ''log_amount'' (log1p L amount))"

definition get_dummies :: "features \<Rightarrow> frame \<Rightarrow> frame" where
  "get_dummies fs df =
     (case document_type fs of
        None \<Rightarrow> df
      | Some d \<Rightarrow> df @ [(''doc_type_'' @ d, 1)])"

definition preprocess_features :: "('m, 's) library \<Rightarrow> features \<Rightarrow> failure + frame" where
  "preprocess_features L fs =
     (case time_features L fs (numeric fs) of
        Inl e \<Rightarrow> Inl e
      | Inr df1 \<Rightarrow>
          (let df = get_dummies fs (derived_features L df1);
               doc_type_columns = filter (\<lambda>col. startswith col ''doc_type_'') (columns df);
               feature_columns = feature_columns @ doc_type_columns;
               missing_features = filter (\<lambda>col. col \<notin> set (columns df)) feature_columns
           in if missing_features \<noteq> [] then Inl (Exit 1)
              else Inr (select_columns df feature_columns)))"

definition calculate_risk_level :: "real \<Rightarrow> string" where
  "calculate_risk_level risk_score =
     (if risk_score < 33 then ''low''
      else if risk_score < 67 then ''medium''
      else ''high'')"

text \<open>\<open>sep.join(xs)\<close> and \<open>s.split(sep)\<close> of Python's \<open>str\<close>.\<close>

fun join :: "string \<Rightarrow> string list \<Rightarrow> string" where
  "join sep [] = []"
| "join sep [x] = x"
| "join sep (x # y # ys) = x @ sep @ join sep (y # ys)"

function split_from :: "string \<Rightarrow> string \<Rightarrow> string \<Rightarrow> string list" where
  "split_from sep acc [] = [acc]"
| "split_from sep acc (c # cs) =
     (if sep \<noteq> [] \<and> take (length sep) (c # cs) = sep
      then acc # split_from sep [] (drop (length sep) (c # cs))
      else split_from sep (acc @ [c]) cs)"
  by pat_completeness auto
termination
  by (relation "measure (\<lambda>(sep, acc, s). length s)") auto

definition split :: "string \<Rightarrow> string \<Rightarrow> failure + string list" where
  "split s sep = (if sep = [] then Inl (Raised ''ValueError'') else Inr (split_from sep [] s))"

definition generate_explanation :: "int \<Rightarrow> frame \<Rightarrow> failure + string" where
  "generate_explanation prediction features =
     (case (map_of features ''transaction_amount'', map_of features ''document_quality'',
            map_of features ''country_risk_score'', map_of features ''failed_logins'') of
        (Some transaction_amount, Some document_quality, Some country_risk_score,
         Some failed_logins) \<Rightarrow>
          (let risk_factors =
                 (if transaction_amount > 10000 then [''High transaction amount''] else []) @
                 (if document_quality < 0.7 then [''Low document quality''] else []) @
                 (if country_risk_score > 0.7 then [''High-risk country''] else []) @
                 (if failed_logins > 3 then [''Multiple failed login attempts''] else []);
               risk_factors =
                 (if risk_factors = [] then [''No significant risk factors identified'']
                  else risk_factors)
           in Inr (join '' | '' risk_factors))
      | _ \<Rightarrow> Inl (Raised ''KeyError''))"

record result =
  risk_level :: string
  risk_score :: real
  confidence :: real
  explanation :: string
  risk_factors :: "string list"
  recommended_action :: string

text \<open>
  \<open>make_result\<close> is the part of \<open>predict\<close> after the two calls of the classifier (lines
  116 to 127): the argument \<open>prediction_proba\<close> is the row of class probabilities,
  \<open>prediction\<close> the predicted class and \<open>X\<close> the frame before scaling. The script calls
  \<open>generate_explanation\<close> twice, and so does the model.
\<close>

definition make_result :: "real list \<Rightarrow> int \<Rightarrow> frame \<Rightarrow> failure + result" where
  "make_result prediction_proba prediction X =
     (if length prediction_proba < 2 then Inl (Raised ''IndexError'')
      else
        (let risk_score = round_double ((prediction_proba ! 1) * 100) in
           (case generate_explanation prediction X of
              Inl e \<Rightarrow> Inl e
            | Inr explanation1 \<Rightarrow>
                (case generate_explanation prediction X of
                   Inl e \<Rightarrow> Inl e
                 | Inr explanation2 \<Rightarrow>
                     (case split explanation2 '' | '' of
                        Inl e \<Rightarrow> Inl e
                      | Inr factors \<Rightarrow>
                          Inr \<lparr>risk_level = calculate_risk_level risk_score,
                               risk_score = risk_score,
                               confidence = prediction_proba ! 1,
                               explanation = explanation1,
                               risk_factors = factors,
                               recommended_action =
                                 (if risk_score > 66 then ''Enhanced verification required''
                                  else ''Standard verification'')\<rparr>)))))"

text \<open>
  \<open>predict\<close> prints the result and exits with status 0; the model returns the printed
  result. Nothing is written to the files.
\<close>

definition predict_kyc ::
  "('m, 's) library \<Rightarrow> ('m, 's) store \<Rightarrow> string \<Rightarrow> string \<Rightarrow> failure + result" where
  "predict_kyc L files model_path features_json =
     (case load_model files model_path of
        Inl e \<Rightarrow> Inl e
      | Inr (model, scaler) \<Rightarrow>
          (case json_loads L features_json of
             None \<Rightarrow> Inl (Exit 1)
           | Some fs \<Rightarrow>
               (case preprocess_features L fs of
                  Inl e \<Rightarrow> Inl e
                | Inr X \<Rightarrow>
                    (case transform L scaler X of
                       Inl e \<Rightarrow> Inl e
                     | Inr X_scaled \<Rightarrow>
                         (case predict_proba L model X_scaled of
                            Inl e \<Rightarrow> Inl e
                          | Inr prediction_proba \<Rightarrow>
                              (case predict L model X_scaled of
                                 Inl e \<Rightarrow> Inl e
                               | Inr prediction \<Rightarrow>
                                   make_result prediction_proba prediction X))))))"

text \<open>
  A request and library behaviours to run the script on: the text of a features object
  with the eleven numeric entries a request has to bring, a transaction time (ten
  o'clock on a Monday) and a document type, and the object \<open>json.loads\<close> gives for it;
  a classifier that is the probability it reports for the positive class; a scaler that
  passes the row through.
\<close>

definition example_json :: string where
  \<open>example_json =
     ''{"transaction_amount": 120, "transaction_frequency": 2, "user_age": 30, '' @
     ''"account_age": 2, "previous_fraud_reports": 0, "document_quality": 0.9, '' @
     ''"document_age": 1, "country_risk_score": 0.2, "ip_risk_score": 0.1, '' @
     ''"login_attempts": 1, "failed_logins": 0, '' @
     ''"transaction_time": "2024-01-01T10:00:00", "document_type": "passport"}''\<close>

definition example_features :: features where
  "example_features =
     \<lparr>numeric =
        [(''transaction_amount'', 120), (''transaction_frequency'', 2), (''user_age'', 30),
         (''account_age'', 2), (''previous_fraud_reports'', 0), (''document_quality'', 0.9),
         (''document_age'', 1), (''country_risk_score'', 0.2), (''ip_risk_score'', 0.1),
         (''login_attempts'', 1), (''failed_logins'', 0)],
      transaction_time = Some ''2024-01-01T10:00:00'',
      document_type = Some ''passport''\<rparr>"

definition example_library :: "(real, unit) library" where
  "example_library =
     \<lparr>json_loads = (\<lambda>s. if s = example_json then Some example_features else None),
      to_datetime = (\<lambda>t. if t = ''2024-01-01T10:00:00'' then Some (10, 0) else None),
      log1p = (\<lambda>x. ln (1 + x)),
      transform = (\<lambda>s X. Inr (map snd X)),
      predict_proba = (\<lambda>m x. Inr [1 - m, m]),
      predict = (\<lambda>m x. Inr (if m > 0.5 then 1 else 0))\<rparr>"

definition example_files :: "real \<Rightarrow> (real, unit) store" where
  "example_files p = (\<lambda>path. if path = ''model.joblib'' then Some (p, ()) else None)"

section \<open>Model catalogue (ai-service/src/services/model\_service.py)\<close>

type_synonym datetime = int

record AIModelInfo =
  model_id :: string
  name :: string
  version :: string
  model_type :: string
  accuracy :: real
  last_trained_at :: datetime
  created_at :: datetime
  updated_at :: datetime

record settings =
  DOCUMENT_MODEL_PATH :: string
  FACE_MODEL_PATH :: string
  RISK_MODEL_PATH :: string
  ANOMALY_MODEL_PATH :: string

record UploadFile =
  filename :: string
  file_bytes :: string

record registry =
  models_file :: "AIModelInfo list"
  model_files :: "string \<Rightarrow> string option"

record ambient =
  now :: datetime
  uuid4 :: "nat \<Rightarrow> string"

text \<open>
  The catalogue is the list under \<open>models\<close> of \<open>models.json\<close>; \<open>model_files\<close> are the
  files under the model directories, by path. \<open>__init__\<close> creates the catalogue file
  with an empty list when there is none.
\<close>

definition init :: "AIModelInfo list option \<Rightarrow> AIModelInfo list" where
  "init f = (case f of None \<Rightarrow> [] | Some models \<Rightarrow> models)"

text \<open>
  \<open>str_less\<close> is Python's \<open><\<close> on \<open>str\<close>: lexicographic, by code point.
  \<open>sorted_reverse\<close> is \<open>sorted(models, key=lambda m: m.version, reverse=True)\<close>: the
  sort is stable, also with \<open>reverse=True\<close>, so models with equal versions keep the
  order of the catalogue.
\<close>

fun str_less :: "string \<Rightarrow> string \<Rightarrow> bool" where
  "str_less [] [] = False"
| "str_less [] (y # ys) = True"
| "str_less (x # xs) [] = False"
| "str_less (x # xs) (y # ys) =
     (if x = y then str_less xs ys else (of_char x :: nat) < of_char y)"

fun insert_reverse :: "AIModelInfo \<Rightarrow> AIModelInfo list \<Rightarrow> AIModelInfo list" where
  "insert_reverse m [] = [m]"
| "insert_reverse m (x # xs) =
     (if str_less (version m) (version x) then x # insert_reverse m xs else m # x # xs)"

definition sorted_reverse :: "AIModelInfo list \<Rightarrow> AIModelInfo list" where
  "sorted_reverse ms = foldr insert_reverse ms []"

text \<open>
  \<open>now\<close> is the value of \<open>datetime.now()\<close> during a call and \<open>uuid4 i\<close> the
  \<open>i\<close>-th identifier that \<open>uuid.uuid4()\<close> gives during it.
\<close>

definition create_default_models :: "ambient \<Rightarrow> registry \<Rightarrow> AIModelInfo list \<times> registry" where
  "create_default_models amb reg =
     (let models =
        [\<lparr>model_id = uuid4 amb 0, name = ''Document Verification Model'', version = ''1.0.0'',
          model_type = ''DOCUMENT'', accuracy = 0.98, last_trained_at = now amb,
          created_at = now amb, updated_at = now amb\<rparr>,
         \<lparr>model_id = uuid4 amb 1, name = ''Face Recognition Model'', version = ''1.0.0'',
          model_type = ''FACE'', accuracy = 0.95, last_trained_at = now amb,
          created_at = now amb, updated_at = now amb\<rparr>,
         \<lparr>model_id = uuid4 amb 2, name = ''Risk Analysis Model'', version = ''1.0.0'',
          model_type = ''RISK'', accuracy = 0.92, last_trained_at = now amb,
          created_at = now amb, updated_at = now amb\<rparr>,
         \<lparr>model_id = uuid4 amb 3, name = ''Anomaly Detection Model'', version = ''1.0.0'',
          model_type = ''ANOMALY'', accuracy = 0.90, last_trained_at = now amb,
          created_at = now amb, updated_at = now amb\<rparr>]
      in (models, reg\<lparr>models_file := models\<rparr>))"

definition list_models :: "ambient \<Rightarrow> registry \<Rightarrow> AIModelInfo list \<times> registry" where
  "list_models amb reg =
     (let models = models_file reg
      in if models = [] then create_default_models amb reg else (models, reg))"

definition get_model :: "registry \<Rightarrow> string \<Rightarrow> AIModelInfo option" where
  "get_model reg mid = find (\<lambda>model_data. model_id model_data = mid) (models_file reg)"

definition get_model_by_type :: "registry \<Rightarrow> string \<Rightarrow> AIModelInfo option" where
  "get_model_by_type reg mtype =
     (let models_of_type = filter (\<lambda>model_data. model_type model_data = mtype) (models_file reg)
      in if models_of_type \<noteq> [] then Some (hd (sorted_reverse models_of_type)) else None)"

text \<open>
  \<open>path_join\<close> is \<open>os.path.join\<close> of two POSIX paths. In \<open>upload_model\<close> the
  parameter \<open>splitext_ext\<close> is the second component of \<open>os.path.splitext\<close>. The model
  file is written before the catalogue.
\<close>

definition path_join :: "string \<Rightarrow> string \<Rightarrow> string" where
  "path_join a b =
     (if b \<noteq> [] \<and> hd b = CHR ''/'' then b
      else if a = [] \<or> last a = CHR ''/'' then a @ b
      else a @ ''/'' @ b)"

definition upload_model ::
  "settings \<Rightarrow> (string \<Rightarrow> string) \<Rightarrow> ambient \<Rightarrow> registry \<Rightarrow> string \<Rightarrow> string \<Rightarrow> string \<Rightarrow> UploadFile
     \<Rightarrow> (failure + string) \<times> registry" where
  "upload_model S splitext_ext amb reg mtype mname mversion model_file =
     (let mid = uuid4 amb 0;
          model_dir =
            (if mtype = ''DOCUMENT'' then Some (DOCUMENT_MODEL_PATH S)
             else if mtype = ''FACE'' then Some (FACE_MODEL_PATH S)
             else if mtype = ''RISK'' then Some (RISK_MODEL_PATH S)
             else if mtype = ''ANOMALY'' then Some (ANOMALY_MODEL_PATH S)
             else None)
      in case model_dir of
           None \<Rightarrow> (Inl (Raised ''ValueError''), reg)
         | Some dir \<Rightarrow>
             (let file_extension = splitext_ext (filename model_file);
                  model_file_path = path_join dir (mid @ file_extension);
                  reg1 = reg\<lparr>model_files := (model_files reg)(model_file_path \<mapsto> file_bytes model_file)\<rparr>;
                  model_info =
                    \<lparr>model_id = mid, name = mname, version = mversion, model_type = mtype,
                     accuracy = 0.95, last_trained_at = now amb, created_at = now amb,
                     updated_at = now amb\<rparr>
              in (Inr mid, reg1\<lparr>models_file := models_file reg1 @ [model_info]\<rparr>)))"


text \<open>
  The requests of the router (routers/models.py) and the catalogue after serving them,
  each request with the clock and identifiers of its call.
\<close>

datatype request =
  ListModels
| GetModel string
| GetModelByType string
| UploadModel string string string UploadFile

fun after_request ::
  "settings \<Rightarrow> (string \<Rightarrow> string) \<Rightarrow> registry \<Rightarrow> ambient \<times> request \<Rightarrow> registry" where
  "after_request S ext reg (amb, ListModels) = snd (list_models amb reg)"
| "after_request S ext reg (amb, GetModel mid) = reg"
| "after_request S ext reg (amb, GetModelByType mtype) = reg"
| "after_request S ext reg (amb, UploadModel mtype mname mversion model_file) =
     snd (upload_model S ext amb reg mtype mname mversion model_file)"

definition after_requests ::
  "settings \<Rightarrow> (string \<Rightarrow> string) \<Rightarrow> registry \<Rightarrow> (ambient \<times> request) list \<Rightarrow> registry" where
  "after_requests S ext reg reqs = foldl (after_request S ext) reg reqs"

definition known_types :: "string list" where
  "known_types = [''DOCUMENT'', ''FACE'', ''RISK'', ''ANOMALY'']"

definition published :: "string \<Rightarrow> string \<Rightarrow> string \<Rightarrow> AIModelInfo" where
  "published mid mtype mversion =
     \<lparr>model_id = mid, name = ''model'', version = mversion, model_type = mtype,
      accuracy = 0.95, last_trained_at = 0, created_at = 0, updated_at = 0\<rparr>"

definition example_settings :: settings where
  "example_settings =
     \<lparr>DOCUMENT_MODEL_PATH = ''./models/document'', FACE_MODEL_PATH = ''./models/face'',
      RISK_MODEL_PATH = ''./models/risk'', ANOMALY_MODEL_PATH = ''./models/anomaly''\<rparr>"

definition example_ambient :: "datetime \<Rightarrow> string \<Rightarrow> ambient" where
  "example_ambient t u = \<lparr>now = t, uuid4 = (\<lambda>i. u @ replicate i CHR ''0'')\<rparr>"

definition fresh_registry :: registry where
  "fresh_registry = \<lparr>models_file = init None, model_files = Map.empty\<rparr>"

section \<open>Feature engineering (kyc-service/internal/ai/feature\_engineering.py)\<close>

text \<open>
  The values of a record (\<open>Dict[str, Any]\<close>) are the values JSON gives: \<open>None\<close>,
  booleans, integers, floats (a real number, or NaN), strings, lists and objects. A
  dictionary is the list of its entries, with distinct keys. Characters are code points
  below 256.
\<close>

datatype pyval =
  PNone
| PBool bool
| PInt int
| PFloat real
| PNaN
| PStr string
| PList "pyval list"
| PDict "(string \<times> pyval) list"

datatype timestamp = NaT | Timestamp bool int

definition truthy :: "pyval \<Rightarrow> bool" where
  "truthy v =
     (case v of
        PNone \<Rightarrow> False
      | PBool b \<Rightarrow> b
      | PInt n \<Rightarrow> n \<noteq> 0
      | PFloat x \<Rightarrow> x \<noteq> 0
      | PNaN \<Rightarrow> True
      | PStr s \<Rightarrow> s \<noteq> []
      | PList xs \<Rightarrow> xs \<noteq> []
      | PDict d \<Rightarrow> d \<noteq> [])"

definition dict_get :: "(string \<times> pyval) list \<Rightarrow> string \<Rightarrow> pyval \<Rightarrow> pyval" where
  "dict_get d k dflt = (case map_of d k of None \<Rightarrow> dflt | Some v \<Rightarrow> v)"

text \<open>
  \<open>lower\<close> is \<open>str.lower\<close> on code points below 256: it adds 32 to the letters A to Z
  and to the code points 192 to 222 other than 215, which is setting the bit of value 32.
\<close>

definition lower_char :: "char \<Rightarrow> char" where
  "lower_char c =
     (let n = (of_char c :: nat)
      in if (65 \<le> n \<and> n \<le> 90) \<or> (192 \<le> n \<and> n \<le> 222 \<and> n \<noteq> 215)
         then (case c of Char b0 b1 b2 b3 b4 b5 b6 b7 \<Rightarrow> Char b0 b1 b2 b3 b4 True b6 b7)
         else c)"

definition lower :: "string \<Rightarrow> string" where
  "lower s = map lower_char s"

fun is_substring :: "string \<Rightarrow> string \<Rightarrow> bool" where
  "is_substring p [] = (p = [])"
| "is_substring p (c # cs) = (take (length p) (c # cs) = p \<or> is_substring p cs)"

text \<open>
  \<open>extract_email_domain\<close>: the body of the \<open>try\<close>, with the exceptions it can raise
  (\<open>'@' in email\<close> on a number, \<open>.split\<close> on a list), and the \<open>except\<close> around it.
\<close>

definition contains :: "string \<Rightarrow> pyval \<Rightarrow> failure + bool" where
  "contains x v =
     (case v of
        PStr s \<Rightarrow> Inr (is_substring x s)
      | PList xs \<Rightarrow> Inr (PStr x \<in> set xs)
      | PDict d \<Rightarrow> Inr (x \<in> set (map fst d))
      | _ \<Rightarrow> Inl (Raised ''TypeError''))"

definition str_split :: "pyval \<Rightarrow> string \<Rightarrow> failure + string list" where
  "str_split v sep =
     (case v of
        PStr s \<Rightarrow> split s sep
      | _ \<Rightarrow> Inl (Raised ''AttributeError''))"

definition item :: "'a list \<Rightarrow> nat \<Rightarrow> failure + 'a" where
  "item xs i = (if i < length xs then Inr (xs ! i) else Inl (Raised ''IndexError''))"

definition extract_email_domain_body :: "pyval \<Rightarrow> failure + string" where
  "extract_email_domain_body email =
     (if \<not> truthy email then Inr ''unknown''
      else
        (case contains ''@'' email of
           Inl e \<Rightarrow> Inl e
         | Inr found \<Rightarrow>
             if \<not> found then Inr ''unknown''
             else
               (case str_split email ''@'' of
                  Inl e \<Rightarrow> Inl e
                | Inr parts \<Rightarrow>
                    (case item parts 1 of
                       Inl e \<Rightarrow> Inl e
                     | Inr domain \<Rightarrow> Inr (lower domain)))))"

definition extract_email_domain :: "pyval \<Rightarrow> string" where
  "extract_email_domain email =
     (case extract_email_domain_body email of
        Inl e \<Rightarrow> ''unknown''
      | Inr domain \<Rightarrow> domain)"

text \<open>
  \<open>calculate_age\<close>: the parameter \<open>pd_to_datetime\<close> is \<open>pd.to_datetime\<close> on one
  value; its first argument is the system clock at the time of the call, in nanoseconds
  since the epoch, which pandas reads for texts such as \<open>now\<close> and \<open>today\<close>. It
  gives a timestamp in nanoseconds since the epoch with the flag of a time zone, or
  \<open>NaT\<close>, or raises (\<open>None\<close>). The difference of a time with and a time without
  zone raises; \<open>.days\<close> rounds down, and is NaN on \<open>NaT\<close>; the quotient by 365.25 is
  a float. The parameter \<open>py_repr\<close> of \<open>combine_location\<close> is \<open>str\<close> on values
  that are not strings.

  The clock of a call of \<open>engineer_features\<close>: \<open>now_isoformat\<close> is the value of
  \<open>datetime.now().isoformat()\<close>, which is read first, and \<open>dob_reading\<close> and
  \<open>created_reading\<close> are the clock when \<open>pd.to_datetime\<close> is called on the date of
  birth and on the date of creation.
\<close>

record clock =
  now_isoformat :: string
  dob_reading :: int
  created_reading :: int

definition calculate_age_body ::
  "(int \<Rightarrow> pyval \<Rightarrow> timestamp option) \<Rightarrow> clock \<Rightarrow> pyval \<Rightarrow> pyval \<Rightarrow> failure + pyval" where
  "calculate_age_body pd_to_datetime clk dob created_at' =
     (if \<not> truthy dob \<or> \<not> truthy created_at' then Inr PNone
      else
        (case pd_to_datetime (dob_reading clk) dob of
           None \<Rightarrow> Inl (Raised ''ValueError'')
         | Some dob_date \<Rightarrow>
             (case pd_to_datetime (created_reading clk) created_at' of
                None \<Rightarrow> Inl (Raised ''ValueError'')
              | Some created_date \<Rightarrow>
                  (case (created_date, dob_date) of
                     (Timestamp ctz c, Timestamp dtz d) \<Rightarrow>
                       if ctz \<noteq> dtz then Inl (Raised ''TypeError'')
                       else Inr (PFloat
                              (round_double
                                 (real_of_int ((c - d) div 86400000000000) / 365.25)))
                   | _ \<Rightarrow> Inr PNaN))))"

definition calculate_age ::
  "(int \<Rightarrow> pyval \<Rightarrow> timestamp option) \<Rightarrow> clock \<Rightarrow> pyval \<Rightarrow> pyval \<Rightarrow> pyval" where
  "calculate_age pd_to_datetime clk dob created_at' =
     (case calculate_age_body pd_to_datetime clk dob created_at' of
        Inl e \<Rightarrow> PNone
      | Inr age \<Rightarrow> age)"

definition str_of :: "(pyval \<Rightarrow> string) \<Rightarrow> pyval \<Rightarrow> string" where
  "str_of py_repr v = (case v of PStr s \<Rightarrow> s | _ \<Rightarrow> py_repr v)"

definition combine_location :: "(pyval \<Rightarrow> string) \<Rightarrow> pyval \<Rightarrow> failure + string" where
  "combine_location py_repr address =
     (case address of
        PDict d \<Rightarrow>
          (let fields = [''address'', ''city'', ''country'', ''postal_code'']
           in Inr (join '', ''
                (map (\<lambda>f. str_of py_repr (dict_get d f (PStr [])))
                   (filter (\<lambda>f. truthy (dict_get d f PNone)) fields))))
      | _ \<Rightarrow> Inl (Raised ''AttributeError''))"

definition invert_risk_score :: "pyval \<Rightarrow> failure + pyval" where
  "invert_risk_score score =
     (if \<not> truthy score then Inr (PInt 0)
      else
        (case score of
           PBool b \<Rightarrow> Inr (PInt (100 - (if b then 1 else 0)))
         | PInt n \<Rightarrow> Inr (PInt (100 - n))
         | PFloat x \<Rightarrow> Inr (PFloat (round_double (100 - x)))
         | PNaN \<Rightarrow> Inr PNaN
         | _ \<Rightarrow> Inl (Raised ''TypeError'')))"

definition engineer_features ::
  "(int \<Rightarrow> pyval \<Rightarrow> timestamp option) \<Rightarrow> (pyval \<Rightarrow> string) \<Rightarrow> clock
     \<Rightarrow> (string \<times> pyval) list \<Rightarrow> failure + (string \<times> pyval) list" where
  "engineer_features pd_to_datetime py_repr clk data =
     (let age = calculate_age pd_to_datetime clk (dict_get data ''date_of_birth'' PNone)
                  (dict_get data ''created_at'' (PStr (now_isoformat clk)));
          email_domain = extract_email_domain (dict_get data ''email'' PNone)
      in case combine_location py_repr (dict_get data ''address'' (PDict [])) of
           Inl e \<Rightarrow> Inl e
         | Inr location \<Rightarrow>
             (case invert_risk_score (dict_get data ''risk_score'' (PInt 0)) of
                Inl e \<Rightarrow> Inl e
              | Inr inverted \<Rightarrow>
                  Inr [(''age'', age),
                       (''email_domain'', PStr email_domain),
                       (''location'', PStr location),
                       (''risk_score'', inverted),
                       (''document_type'', dict_get data ''document_type'' (PStr ''unknown'')),
                       (''document_number'', dict_get data ''document_number'' PNone),
                       (''first_name'', dict_get data ''first_name'' PNone),
                       (''last_name'', dict_get data ''last_name'' PNone)]))"

text \<open>
  A value is parsed without the clock when \<open>pd.to_datetime\<close> gives the same for it at
  any two times.
\<close>

definition reads_no_clock :: "(int \<Rightarrow> pyval \<Rightarrow> timestamp option) \<Rightarrow> pyval \<Rightarrow> bool" where
  "reads_no_clock pd_to_datetime v = (\<forall>t t'. pd_to_datetime t v = pd_to_datetime t' v)"

text \<open>
  What \<open>pd.to_datetime\<close> gives on three ISO dates (7305, 18262 and 18628 days after
  the epoch) and on \<open>now\<close>; the clock at midnight of a day, with its ISO text; and a
  record without \<open>created_at\<close>.
\<close>

definition example_to_datetime :: "int \<Rightarrow> pyval \<Rightarrow> timestamp option" where
  "example_to_datetime t v =
     (if v = PStr ''now'' then Some (Timestamp False t)
      else if v = PStr ''1990-01-01'' then Some (Timestamp False (7305 * 86400000000000))
      else if v = PStr ''2020-01-01T00:00:00'' then Some (Timestamp False (18262 * 86400000000000))
      else if v = PStr ''2021-01-01T00:00:00'' then Some (Timestamp False (18628 * 86400000000000))
      else None)"

definition example_clock :: "int \<Rightarrow> string \<Rightarrow> clock" where
  "example_clock day isoformat =
     \<lparr>now_isoformat = isoformat, dob_reading = day * 86400000000000,
      created_reading = day * 86400000000000\<rparr>"

definition example_record :: "(string \<times> pyval) list" where
  "example_record =
     [(''date_of_birth'', PStr ''1990-01-01''), (''email'', PStr ''a@Example.COM''),
      (''address'', PDict [(''city'', PStr ''Oslo''), (''country'', PStr ''NO'')]),
      (''risk_score'', PInt 80), (''document_type'', PStr ''passport'')]"

section \<open>AML fraud detection script (aml-service/internal/ai/fraud\_detection.py)\<close>

text \<open>
  \<open>StandardScaler\<close>: a fitted scaler holds the mean and the scale of every column;
  \<open>fit\<close> takes them from the rows it is given, with the scale 1 for a column of
  standard deviation 0, and \<open>transform\<close> subtracts the mean and divides by the scale.
  A scaler that was never fitted is \<open>None\<close>. The script fits on one row only, and on
  one row these operations are exact on doubles: the mean is the row, the deviation 0,
  and the scaled row 0.
\<close>

record fitted =
  mean :: "real list"
  scale :: "real list"

definition column_mean :: "real list \<Rightarrow> real" where
  "column_mean c = sum_list c / real (length c)"

definition column_var :: "real list \<Rightarrow> real" where
  "column_var c = sum_list (map (\<lambda>x. (x - column_mean c)\<^sup>2) c) / real (length c)"

definition handle_zeros_in_scale :: "real \<Rightarrow> real" where
  "handle_zeros_in_scale s = (if s = 0 then 1 else s)"

definition fit :: "real list list \<Rightarrow> fitted" where
  "fit X =
     \<lparr>mean = map column_mean (transpose X),
      scale = map (\<lambda>c. handle_zeros_in_scale (sqrt (column_var c))) (transpose X)\<rparr>"

definition transform_row :: "fitted \<Rightarrow> real list \<Rightarrow> real list" where
  "transform_row sc x = map (\<lambda>(v, m, s). (v - m) / s) (zip x (zip (mean sc) (scale sc)))"

text \<open>
  The features object of a request is the record \<open>features\<close> above, with the numeric
  entries and the transaction time; the AML script reads no document type.
  The classifier is a parameter, with the calls the script makes on it:
  \<open>fromisoformat\<close> is \<open>datetime.fromisoformat\<close> (\<open>None\<close> when it raises),
  \<open>new_classifier\<close> is the \<open>RandomForestClassifier\<close> that was never fitted,
  \<open>model_predict\<close> and \<open>model_predict_proba\<close> give the first row of \<open>predict\<close>
  and of \<open>predict_proba\<close>, \<open>model_feature_importances\<close> is
  \<open>feature_importances_\<close>, and \<open>format_2f\<close> is the format \<open>:.2f\<close> of a float.
\<close>

record 'm sklearn =
  fromisoformat :: "string \<Rightarrow> datetime option"
  new_classifier :: "'m"
  model_predict :: "'m \<Rightarrow> real list \<Rightarrow> failure + int"
  model_predict_proba :: "'m \<Rightarrow> real list \<Rightarrow> failure + real list"
  model_feature_importances :: "'m \<Rightarrow> failure + real list"
  format_2f :: "real \<Rightarrow> string"

record 'm FraudDetectionModel =
  model_path :: string
  model :: "'m"
  scaler :: "fitted option"

text \<open>
  \<open>__init__\<close> and \<open>load_model\<close>: the file holds the classifier alone; the scaler is a
  new \<open>StandardScaler()\<close> in every process.
\<close>

definition FraudDetectionModel_init ::
  "'m sklearn \<Rightarrow> (string \<Rightarrow> 'm option) \<Rightarrow> string \<Rightarrow> 'm FraudDetectionModel" where
  "FraudDetectionModel_init L files path =
     \<lparr>model_path = path,
      model = (case files path of Some m \<Rightarrow> m | None \<Rightarrow> new_classifier L),
      scaler = None\<rparr>"

definition feature_names :: "string list" where
  "feature_names =
     [''amount'', ''transaction_count'', ''average_amount'', ''amount_deviation'',
      ''user_age'', ''account_age'', ''country_risk'', ''ip_risk'',
      ''login_attempts'', ''failed_logins'', ''device_changes'',
      ''pep_status'', ''sanction_list'', ''watch_list'']"

fun lookup_all :: "frame \<Rightarrow> string list \<Rightarrow> failure + real list" where
  "lookup_all d [] = Inr []"
| "lookup_all d (k # ks) =
     (case map_of d k of
        None \<Rightarrow> Inl (Raised ''KeyError'')
      | Some v \<Rightarrow> (case lookup_all d ks of Inl e \<Rightarrow> Inl e | Inr vs \<Rightarrow> Inr (v # vs)))"

text \<open>
  \<open>preprocess_features\<close> of the class: the row of the fourteen features, scaled by
  \<open>self.scaler.fit_transform\<close>, which fits the scaler of the object on this one row.
\<close>

definition aml_preprocess_features ::
  "'m sklearn \<Rightarrow> 'm FraudDetectionModel \<Rightarrow> features
     \<Rightarrow> (failure + real list) \<times> 'm FraudDetectionModel" where
  "aml_preprocess_features L self fs =
     (case transaction_time fs of
        None \<Rightarrow> (Inl (Raised ''KeyError''), self)
      | Some t \<Rightarrow>
          (case fromisoformat L t of
             None \<Rightarrow> (Inl (Raised ''ValueError''), self)
           | Some parsed \<Rightarrow>
               (case lookup_all (numeric fs) feature_names of
                  Inl e \<Rightarrow> (Inl e, self)
                | Inr X \<Rightarrow>
                    (let fitted_scaler = fit [X]
                     in (Inr (transform_row fitted_scaler X),
                         self\<lparr>scaler := Some fitted_scaler\<rparr>)))))"





text \<open>
  A classifier for the runs below: the list of its importances; it predicts class 0 with
  the probabilities 0.9 and 0.1. Python's format \<open>:.2f\<close> prints the exact value of
  the double with two decimals, rounding to the nearest, a tie to the even digit:
  \<open>decimal_2f\<close> is this on the real number a double denotes, and \<open>double_2f\<close> takes
  the double nearest to its argument first, as the script does with a decimal such as
  0.995 (which is printed 0.99, the double being below 0.995).
\<close>

fun decimal :: "nat \<Rightarrow> string" where
  "decimal n =
     (if n < 10 then [''0123456789'' ! n]
      else decimal (n div 10) @ [''0123456789'' ! (n mod 10)])"

definition decimal_2f :: "real \<Rightarrow> string" where
  "decimal_2f x =
     (let n = nat (round_half_even (\<bar>x\<bar> * 100))
      in (if x < 0 then ''-'' else []) @ decimal (n div 100) @ ''.'' @
         [''0123456789'' ! (n mod 100 div 10), ''0123456789'' ! (n mod 10)])"

definition double_2f :: "real \<Rightarrow> string" where
  "double_2f x = decimal_2f (round_double x)"

definition example_sklearn :: "(real list) sklearn" where
  "example_sklearn =
     \<lparr>fromisoformat = (\<lambda>t. if t = ''2024-01-01T10:00:00'' then Some 1704103200000000 else None),
      new_classifier = [],
      model_predict = (\<lambda>m X. if m = [] then Inl (Raised ''NotFittedError'') else Inr 0),
      model_predict_proba =
        (\<lambda>m X. if m = [] then Inl (Raised ''NotFittedError'') else Inr [0.9, 0.1]),
      model_feature_importances =
        (\<lambda>m. if m = [] then Inl (Raised ''NotFittedError'') else Inr m),
      format_2f = double_2f\<rparr>"

definition example_transaction :: features where
  "example_transaction =
     \<lparr>numeric =
        [(''amount'', 120), (''transaction_count'', 3), (''average_amount'', 80),
         (''amount_deviation'', 0.5), (''user_age'', 30), (''account_age'', 2),
         (''country_risk'', 0.2), (''ip_risk'', 0.1), (''login_attempts'', 1),
         (''failed_logins'', 0), (''device_changes'', 0), (''pep_status'', 0),
         (''sanction_list'', 0), (''watch_list'', 0)],
      transaction_time = Some ''2024-01-01T10:00:00'',
      document_type = None\<rparr>"



section \<open>Risk tiers\<close>

text \<open>
  C2. The discretisation of \<open>calculate_risk_level\<close> is a partition of the scores: the
  tier is \<open>low\<close> exactly for the scores strictly below 33, \<open>medium\<close> exactly for the
  scores from 33 up to but not including 67, and \<open>high\<close> exactly for the scores of at
  least 67. The three conditions exclude each other and cover every score, in particular
  every score of the interval from 0 to 100. The code names the tiers by the lower-case
  strings \<open>low\<close>, \<open>medium\<close> and \<open>high\<close>.
\<close>

theorem calculate_risk_level_partition:
  "(calculate_risk_level s = ''low'') = (s < 33) \<and>
   (calculate_risk_level s = ''medium'') = (33 \<le> s \<and> s < 67) \<and>
   (calculate_risk_level s = ''high'') = (67 \<le> s)"
  by (simp add: calculate_risk_level_def)

section \<open>Rounding to a double\<close>

lemma floor_log2_eq:
  assumes "2 powi k \<le> x" "x < 2 powi (k + 1)"
  shows "\<lfloor>log 2 x\<rfloor> = k"
proof -
  have pos: "0 < x" using assms(1) by (smt (verit) zero_less_power_int)
  have a: "of_int k \<le> log 2 x"
    using assms(1) pos by (simp add: le_log_iff powr_real_of_int')
  have "(2::real) powr real_of_int (k + 1) = 2 powi (k + 1)"
    by (rule powr_real_of_int') simp_all
  then have b: "log 2 x < of_int (k + 1)"
    using assms(2) pos by (simp add: log_less_iff del: of_int_add)
  show ?thesis using a b by (simp add: floor_eq_iff)
qed

text \<open>
  In the binade from \<open>2 powi k\<close> to \<open>2 powi (k + 1)\<close> the doubles are the multiples
  of \<open>2 powi (k - 52)\<close>.
\<close>

lemma round_double_binade:
  assumes "2 powi k \<le> \<bar>x\<bar>" "\<bar>x\<bar> < 2 powi (k + 1)" "- 1022 \<le> k"
  shows "round_double x = of_int (round_half_even (x / 2 powi (k - 52))) * 2 powi (k - 52)"
proof -
  have "\<lfloor>log 2 \<bar>x\<bar>\<rfloor> = k" using assms(1,2) by (rule floor_log2_eq)
  then have e: "double_exponent x = k - 52" using assms(3) by (simp add: double_exponent_def)
  have "x \<noteq> 0" using assms(1) by (smt (verit) zero_less_power_int abs_zero)
  then show ?thesis by (simp add: round_double_def e)
qed

lemma round_half_even_error: "\<bar>of_int (round_half_even x) - x\<bar> \<le> 1 / 2"
  unfolding round_half_even_def Let_def by (auto simp: abs_if) linarith+

text \<open>
  The rounding changes a number by at most the fraction \<open>1 / 2 ^ 53\<close> of it, or by
  half the smallest positive double.
\<close>

lemma round_double_error:
  "\<bar>round_double x - x\<bar> \<le> max (\<bar>x\<bar> / 2 ^ 53) (2 powi (- 1075))"
proof (cases "x = 0")
  case True
  then show ?thesis by (simp add: round_double_def)
next
  case False
  define e where "e = double_exponent x"
  have "round_double x - x = (of_int (round_half_even (x / 2 powi e)) - x / 2 powi e) * 2 powi e"
    using False by (simp add: round_double_def e_def algebra_simps)
  then have "\<bar>round_double x - x\<bar> =
      \<bar>of_int (round_half_even (x / 2 powi e)) - x / 2 powi e\<bar> * 2 powi e"
    by (simp add: abs_mult)
  also have "\<dots> \<le> 1 / 2 * 2 powi e"
    by (intro mult_right_mono round_half_even_error) simp
  finally have bound: "\<bar>round_double x - x\<bar> \<le> 2 powi e / 2" by simp
  show ?thesis
  proof (cases "\<lfloor>log 2 \<bar>x\<bar>\<rfloor> - 52 \<le> - 1074")
    case True
    then have "e = - 1074" by (simp add: e_def double_exponent_def)
    moreover have a: "(- 1074 - 1 :: int) = - 1075" by simp
    have b: "(2::real) powi (- 1074 - 1) = 2 powi (- 1074) / 2 powi 1"
      by (rule power_int_diff) simp
    have c: "(2::real) powi 1 = 2" by (rule power_int_1_right)
    from b have "(2::real) powi (- 1074) / 2 = 2 powi (- 1075)"
      unfolding a c by (rule sym)
    ultimately have "2 powi e / 2 = (2::real) powi (- 1075)"
      by (simp only:)
    with bound have "\<bar>round_double x - x\<bar> \<le> 2 powi (- 1075)" by (simp only:)
    then show ?thesis by (rule max.coboundedI2)
  next
    case False
    then have e: "e = \<lfloor>log 2 \<bar>x\<bar>\<rfloor> - 52" by (simp add: e_def double_exponent_def)
    have "of_int \<lfloor>log 2 \<bar>x\<bar>\<rfloor> \<le> log 2 \<bar>x\<bar>" by (rule of_int_floor_le)
    moreover have "0 < \<bar>x\<bar>" using \<open>x \<noteq> 0\<close> by simp
    ultimately have "2 powr (of_int \<lfloor>log 2 \<bar>x\<bar>\<rfloor>) \<le> \<bar>x\<bar>"
      by (subst (asm) le_log_iff) simp_all
    then have k: "2 powi \<lfloor>log 2 \<bar>x\<bar>\<rfloor> \<le> \<bar>x\<bar>"
      by (simp add: powr_real_of_int')
    have "(2::real) powi e = 2 powi \<lfloor>log 2 \<bar>x\<bar>\<rfloor> / 2 ^ 52"
      unfolding e by (simp add: power_int_diff)
    also have "\<dots> \<le> \<bar>x\<bar> / 2 ^ 52" using k by (simp add: divide_right_mono)
    finally have "2 powi e / 2 \<le> \<bar>x\<bar> / 2 ^ 53" by simp
    with bound have "\<bar>round_double x - x\<bar> \<le> \<bar>x\<bar> / 2 ^ 53" by (rule order_trans)
    then show ?thesis by (rule max.coboundedI1)
  qed
qed

section \<open>The result of a prediction\<close>

lemma split_from_nonempty: "split_from sep acc s \<noteq> []"
  by (induction sep acc s rule: split_from.induct) auto

lemma make_result_fields:
  assumes "make_result prediction_proba prediction X = Inr r"
  shows "confidence r = prediction_proba ! 1 \<and>
         risk_score r = round_double (prediction_proba ! 1 * 100) \<and>
         risk_level r = calculate_risk_level (risk_score r) \<and>
         recommended_action r =
           (if risk_score r > 66 then ''Enhanced verification required''
            else ''Standard verification'') \<and>
         generate_explanation prediction X = Inr (explanation r) \<and>
         split (explanation r) '' | '' = Inr (risk_factors r)"
  using assms
  by (auto simp: make_result_def Let_def split: if_splits sum.splits)

lemma predict_kyc_make_result:
  assumes "predict_kyc L files path features_json = Inr r"
  shows "\<exists>model scaler fs X X_scaled prediction_proba prediction.
           files path = Some (model, scaler) \<and> json_loads L features_json = Some fs \<and>
           preprocess_features L fs = Inr X \<and> transform L scaler X = Inr X_scaled \<and>
           predict_proba L model X_scaled = Inr prediction_proba \<and>
           predict L model X_scaled = Inr prediction \<and>
           make_result prediction_proba prediction X = Inr r"
  using assms
  by (auto simp: predict_kyc_def load_model_def split: option.splits sum.splits prod.splits)

lemmas example_run_defs =
  predict_kyc_def load_model_def make_result_def generate_explanation_def split_def
  calculate_risk_level_def preprocess_features_def example_library_def example_features_def
  example_files_def time_features_def derived_features_def get_dummies_def columns_def
  startswith_def feature_columns_def select_columns_def round_half_even_def Let_def

text \<open>
  C3. In \<open>predict\<close> the recommended action is \<open>Enhanced verification required\<close> for
  every score above 66, while the tier \<open>high\<close> of \<open>calculate_risk_level\<close> starts at 67.
  For a positive-class probability of 0.665 the script prints the score 66.5 with the
  tier \<open>medium\<close> and the action \<open>Enhanced verification required\<close>: the action's
  boundary is not the boundary of the tier \<open>high\<close>.
\<close>

theorem predict_kyc_action_below_high_tier:
  "predict_kyc example_library (example_files 0.665) ''model.joblib'' example_json =
     Inr \<lparr>risk_level = ''medium'', risk_score = 66.5, confidence = 0.665,
          explanation = ''No significant risk factors identified'',
          risk_factors = [''No significant risk factors identified''],
          recommended_action = ''Enhanced verification required''\<rparr>"
  by (simp add: example_run_defs round_double_binade [of 6])

text \<open>
  The product is the rounded one: for the double 0.6699999999999999, which is
  377176468792279 / 2 ^ 49, the score is 67 and the tier \<open>high\<close>, although a hundred
  times the probability is below 67.
\<close>

lemma predict_kyc_rounds_score:
  "predict_kyc example_library (example_files (377176468792279 / 2 ^ 49)) ''model.joblib''
     example_json =
     Inr \<lparr>risk_level = ''high'', risk_score = 67, confidence = 377176468792279 / 2 ^ 49,
          explanation = ''No significant risk factors identified'',
          risk_factors = [''No significant risk factors identified''],
          recommended_action = ''Enhanced verification required''\<rparr>"
  by (simp add: example_run_defs round_double_binade [of 6])

text \<open>
  C10, as the code has it. Whenever \<open>predict\<close> prints a result, its confidence is the
  entry for the positive class of the row of probabilities the classifier gave, whatever
  class the classifier predicted; the risk score is the double nearest to a hundred times
  the confidence, so that the two agree up to one rounding of the product; the list of
  risk factors is the explanation split at \<open>'' | ''\<close>, and it is never empty.
\<close>

theorem predict_kyc_confidence:
  assumes "predict_kyc L files path features_json = Inr r"
  shows "(\<exists>model scaler fs X X_scaled prediction_proba.
            files path = Some (model, scaler) \<and> json_loads L features_json = Some fs \<and>
            preprocess_features L fs = Inr X \<and> transform L scaler X = Inr X_scaled \<and>
            predict_proba L model X_scaled = Inr prediction_proba \<and>
            confidence r = prediction_proba ! 1) \<and>
         risk_score r = round_double (confidence r * 100) \<and>
         \<bar>risk_score r - confidence r * 100\<bar> \<le>
           max (\<bar>confidence r * 100\<bar> / 2 ^ 53) (2 powi (- 1075)) \<and>
         split (explanation r) '' | '' = Inr (risk_factors r) \<and>
         risk_factors r \<noteq> []"
proof -
  from predict_kyc_make_result [OF assms]
  obtain model scaler fs X X_scaled prediction_proba prediction
    where h: "files path = Some (model, scaler)" "json_loads L features_json = Some fs"
      "preprocess_features L fs = Inr X" "transform L scaler X = Inr X_scaled"
      "predict_proba L model X_scaled = Inr prediction_proba"
      "make_result prediction_proba prediction X = Inr r"
    by blast
  note f = make_result_fields [OF h(6)]
  from f have "split (explanation r) '' | '' = Inr (risk_factors r)" by simp
  then have "risk_factors r \<noteq> []"
    by (auto simp: split_def split_from_nonempty split: if_splits)
  moreover from f have s: "risk_score r = round_double (confidence r * 100)" by simp
  moreover have "\<bar>risk_score r - confidence r * 100\<bar> \<le>
      max (\<bar>confidence r * 100\<bar> / 2 ^ 53) (2 powi (- 1075))"
    unfolding s by (rule round_double_error)
  ultimately show ?thesis using h f by blast
qed

text \<open>
  A record the classifier takes for legitimate (probability 0.02 of fraud, predicted
  class 0) is reported with confidence 0.02.
\<close>

theorem predict_kyc_confidence_witness:
  "\<exists>r. predict_kyc example_library (example_files 0.02) ''model.joblib'' example_json = Inr r \<and>
       risk_score r = 2 \<and> confidence r = 0.02 \<and>
       risk_score r = round_double (confidence r * 100) \<and>
       split (explanation r) '' | '' = Inr (risk_factors r) \<and> risk_factors r \<noteq> []"
proof -
  have "\<exists>r. predict_kyc example_library (example_files 0.02) ''model.joblib'' example_json = Inr r \<and>
          risk_score r = 2 \<and> confidence r = 0.02"
    by (simp add: example_run_defs round_double_binade [of 1])
  then obtain r
    where r: "predict_kyc example_library (example_files 0.02) ''model.joblib'' example_json = Inr r"
      "risk_score r = 2" "confidence r = 0.02"
    by blast
  from predict_kyc_confidence [OF r(1)] r show ?thesis by blast
qed

text \<open>
  C10, as stated, fails on the equation of confidence and a hundredth of the score. For
  the double nearest to 0.007, which is 8070450532247929 / 2 ^ 60, the script prints
  the score 0.7000000000000001, which is 6305039478318695 / 2 ^ 53; a hundredth of it
  is not the confidence, neither exactly nor as the quotient of doubles, which is
  4035225266123965 / 2 ^ 59.
\<close>

theorem predict_kyc_confidence_not_score_hundredth:
  "predict_kyc example_library (example_files (8070450532247929 / 2 ^ 60)) ''model.joblib''
     example_json =
     Inr \<lparr>risk_level = ''low'', risk_score = 6305039478318695 / 2 ^ 53,
          confidence = 8070450532247929 / 2 ^ 60,
          explanation = ''No significant risk factors identified'',
          risk_factors = [''No significant risk factors identified''],
          recommended_action = ''Standard verification''\<rparr> \<and>
   (6305039478318695 / 2 ^ 53) / 100 \<noteq> (8070450532247929 / 2 ^ 60 :: real) \<and>
   round_double ((6305039478318695 / 2 ^ 53) / 100) = 4035225266123965 / 2 ^ 59 \<and>
   (4035225266123965 / 2 ^ 59 :: real) \<noteq> 8070450532247929 / 2 ^ 60"
  by (simp add: example_run_defs round_double_binade [of "- 1"] round_double_binade [of "- 8"])

section \<open>Latest model of a type\<close>

lemma set_insert_reverse: "set (insert_reverse m ms) = insert m (set ms)"
  by (induction ms) auto

lemma set_sorted_reverse: "set (sorted_reverse ms) = set ms"
  unfolding sorted_reverse_def by (induction ms) (simp_all add: set_insert_reverse)

lemma get_model_by_type_None:
  "(get_model_by_type reg t = None) = (t \<notin> model_type ` set (models_file reg))"
  by (auto simp: get_model_by_type_def Let_def filter_empty_conv)

lemma get_model_by_type_Some:
  assumes "get_model_by_type reg t = Some m"
  shows "m \<in> set (models_file reg) \<and> model_type m = t"
proof -
  let ?ms = "filter (\<lambda>model_data. model_type model_data = t) (models_file reg)"
  from assms have ne: "?ms \<noteq> []" and m: "m = hd (sorted_reverse ?ms)"
    by (auto simp: get_model_by_type_def Let_def split: if_splits)
  from ne have "sorted_reverse ?ms \<noteq> []"
    using set_sorted_reverse [of ?ms] by (metis set_empty)
  then have "m \<in> set (sorted_reverse ?ms)" using m by simp
  then have "m \<in> set ?ms" by (simp add: set_sorted_reverse)
  then show ?thesis by simp
qed

text \<open>
  Of the published versions 1.2.0, 1.10.0 and 2.0.0 the lookup gives 2.0.0, which is
  the greatest both as a string and as a semantic version.
\<close>

lemma get_model_by_type_three_versions:
  "get_model_by_type
     \<lparr>models_file = [published ''a'' ''RISK'' ''1.2.0'', published ''b'' ''RISK'' ''1.10.0'',
                     published ''c'' ''RISK'' ''2.0.0''],
      model_files = Map.empty\<rparr> ''RISK'' = Some (published ''c'' ''RISK'' ''2.0.0'')"
  by (simp add: get_model_by_type_def published_def sorted_reverse_def)

text \<open>
  C1. \<open>get_model_by_type\<close> sorts the models of the type by their version strings, as
  strings. With the versions 1.2.0 and 1.10.0 published for a type, in either order of
  publication, it returns the model of version 1.2.0, although 1.10.0 is the greater
  semantic version: the character \<open>2\<close> is greater than the character \<open>1\<close>.
\<close>

theorem get_model_by_type_compares_strings:
  "get_model_by_type
     \<lparr>models_file = [published ''a'' ''RISK'' ''1.2.0'', published ''b'' ''RISK'' ''1.10.0''],
      model_files = Map.empty\<rparr> ''RISK'' = Some (published ''a'' ''RISK'' ''1.2.0'') \<and>
   get_model_by_type
     \<lparr>models_file = [published ''b'' ''RISK'' ''1.10.0'', published ''a'' ''RISK'' ''1.2.0''],
      model_files = Map.empty\<rparr> ''RISK'' = Some (published ''a'' ''RISK'' ''1.2.0'')"
  by (simp add: get_model_by_type_def published_def sorted_reverse_def)

section \<open>Default models\<close>

lemma after_request_keeps_types:
  "t \<in> model_type ` set (models_file reg) \<Longrightarrow>
   t \<in> model_type ` set (models_file (after_request S ext reg ar))"
proof (cases ar)
  case (Pair amb req)
  assume t: "t \<in> model_type ` set (models_file reg)"
  then have ne: "models_file reg \<noteq> []" by auto
  show ?thesis
  proof (cases req)
    case ListModels
    with Pair t ne show ?thesis by (simp add: list_models_def Let_def)
  next
    case (UploadModel mtype mname mversion model_file)
    with Pair t show ?thesis
      by (auto simp: upload_model_def Let_def split: option.splits)
  qed (use Pair t in simp_all)
qed

lemma after_requests_keeps_types:
  "t \<in> model_type ` set (models_file reg) \<Longrightarrow>
   t \<in> model_type ` set (models_file (after_requests S ext reg reqs))"
  unfolding after_requests_def
  by (induction reqs arbitrary: reg) (simp_all add: after_request_keeps_types)

text \<open>
  C9, as the code has it. \<open>list_models\<close> on an empty catalogue writes these four
  default models, one for each of DOCUMENT, FACE, RISK and ANOMALY in this order, with
  the names and accuracies fixed in the code, the version 1.0.0, the four identifiers
  \<open>uuid4\<close> gives during the call and the time of the call as their three timestamps,
  and changes no model file; after that, and after any further requests (uploads
  included), \<open>get_model_by_type\<close> finds a model of each of the four types. On a
  catalogue that is not empty, \<open>list_models\<close> returns the catalogue and writes nothing.
\<close>

theorem list_models_seeds_empty_catalogue:
  "(models_file reg = [] \<and> list_models amb reg = (models, reg1) \<longrightarrow>
      models =
        [\<lparr>model_id = uuid4 amb 0, name = ''Document Verification Model'',
          version = ''1.0.0'', model_type = ''DOCUMENT'', accuracy = 0.98,
          last_trained_at = now amb, created_at = now amb, updated_at = now amb\<rparr>,
         \<lparr>model_id = uuid4 amb 1, name = ''Face Recognition Model'',
          version = ''1.0.0'', model_type = ''FACE'', accuracy = 0.95,
          last_trained_at = now amb, created_at = now amb, updated_at = now amb\<rparr>,
         \<lparr>model_id = uuid4 amb 2, name = ''Risk Analysis Model'',
          version = ''1.0.0'', model_type = ''RISK'', accuracy = 0.92,
          last_trained_at = now amb, created_at = now amb, updated_at = now amb\<rparr>,
         \<lparr>model_id = uuid4 amb 3, name = ''Anomaly Detection Model'',
          version = ''1.0.0'', model_type = ''ANOMALY'', accuracy = 0.90,
          last_trained_at = now amb, created_at = now amb, updated_at = now amb\<rparr>] \<and>
      reg1 = reg\<lparr>models_file := models\<rparr> \<and>
      (\<forall>t \<in> set known_types.
         \<exists>m. get_model_by_type (after_requests S ext reg1 reqs) t = Some m \<and>
             model_type m = t)) \<and>
   (models_file reg \<noteq> [] \<longrightarrow> list_models amb reg = (models_file reg, reg))"
proof (intro conjI impI ballI)
  assume "models_file reg \<noteq> []"
  then show "list_models amb reg = (models_file reg, reg)"
    by (simp add: list_models_def Let_def)
next
  assume a: "models_file reg = [] \<and> list_models amb reg = (models, reg1)"
  then have c: "create_default_models amb reg = (models, reg1)"
    by (auto simp: list_models_def Let_def)
  then show 0: "models =
        [\<lparr>model_id = uuid4 amb 0, name = ''Document Verification Model'',
          version = ''1.0.0'', model_type = ''DOCUMENT'', accuracy = 0.98,
          last_trained_at = now amb, created_at = now amb, updated_at = now amb\<rparr>,
         \<lparr>model_id = uuid4 amb 1, name = ''Face Recognition Model'',
          version = ''1.0.0'', model_type = ''FACE'', accuracy = 0.95,
          last_trained_at = now amb, created_at = now amb, updated_at = now amb\<rparr>,
         \<lparr>model_id = uuid4 amb 2, name = ''Risk Analysis Model'',
          version = ''1.0.0'', model_type = ''RISK'', accuracy = 0.92,
          last_trained_at = now amb, created_at = now amb, updated_at = now amb\<rparr>,
         \<lparr>model_id = uuid4 amb 3, name = ''Anomaly Detection Model'',
          version = ''1.0.0'', model_type = ''ANOMALY'', accuracy = 0.90,
          last_trained_at = now amb, created_at = now amb, updated_at = now amb\<rparr>]"
    by (auto simp: create_default_models_def Let_def)
  from c show 2: "reg1 = reg\<lparr>models_file := models\<rparr>"
    by (auto simp: create_default_models_def Let_def)
  fix t assume t: "t \<in> set known_types"
  from 0 have "map model_type (models_file reg1) = known_types"
    unfolding 2 by (simp add: known_types_def)
  with t have "t \<in> model_type ` set (models_file reg1)"
    by (metis list.set_map)
  then have "t \<in> model_type ` set (models_file (after_requests S ext reg1 reqs))"
    by (rule after_requests_keeps_types)
  then have "get_model_by_type (after_requests S ext reg1 reqs) t \<noteq> None"
    by (simp add: get_model_by_type_None)
  then obtain m where "get_model_by_type (after_requests S ext reg1 reqs) t = Some m" by blast
  with get_model_by_type_Some [OF this]
  show "\<exists>m. get_model_by_type (after_requests S ext reg1 reqs) t = Some m \<and> model_type m = t"
    by blast
qed

theorem list_models_seeds_empty_catalogue_witness:
  "models_file fresh_registry = [] \<and>
   map name (fst (list_models (example_ambient 1 ''a'') fresh_registry)) =
     [''Document Verification Model'', ''Face Recognition Model'', ''Risk Analysis Model'',
      ''Anomaly Detection Model''] \<and>
   (\<exists>m. get_model_by_type
          (after_requests example_settings (\<lambda>f. ''.bin'')
             (snd (list_models (example_ambient 1 ''a'') fresh_registry))
             [(example_ambient 2 ''b'',
               UploadModel ''RISK'' ''risk'' ''1.1.0'' \<lparr>filename = ''m.bin'', file_bytes = ''xyz''\<rparr>),
              (example_ambient 3 ''c'', GetModelByType ''FACE'')])
          ''FACE'' = Some m \<and> model_type m = ''FACE'')"
proof -
  let ?A = "example_ambient 1 ''a''"
  let ?reqs = "[(example_ambient 2 ''b'',
               UploadModel ''RISK'' ''risk'' ''1.1.0'' \<lparr>filename = ''m.bin'', file_bytes = ''xyz''\<rparr>),
              (example_ambient 3 ''c'', GetModelByType ''FACE'')]"
  have e: "models_file fresh_registry = []" by (simp add: fresh_registry_def init_def)
  have k: "''FACE'' \<in> set known_types" by (simp add: known_types_def)
  have p: "list_models ?A fresh_registry =
      (fst (list_models ?A fresh_registry), snd (list_models ?A fresh_registry))"
    by simp
  note th = list_models_seeds_empty_catalogue [of fresh_registry ?A
      "fst (list_models ?A fresh_registry)" "snd (list_models ?A fresh_registry)"
      example_settings "\<lambda>f. ''.bin''" ?reqs, THEN conjunct1, rule_format, OF conjI [OF e p]]
  from th have 1: "map name (fst (list_models ?A fresh_registry)) =
     [''Document Verification Model'', ''Face Recognition Model'', ''Risk Analysis Model'',
      ''Anomaly Detection Model'']"
    by simp
  from th have "\<forall>t \<in> set known_types.
      \<exists>m. get_model_by_type (after_requests example_settings (\<lambda>f. ''.bin'')
             (snd (list_models ?A fresh_registry)) ?reqs) t = Some m \<and> model_type m = t"
    by (rule conjunct2 [THEN conjunct2])
  from this k have "\<exists>m. get_model_by_type (after_requests example_settings (\<lambda>f. ''.bin'')
             (snd (list_models ?A fresh_registry)) ?reqs) ''FACE'' = Some m \<and>
             model_type m = ''FACE''"
    by (rule bspec)
  with e 1 show ?thesis by (intro conjI)
qed

text \<open>
  C9, as stated, fails in three ways. When the first use of the catalogue is a lookup,
  on the empty catalogue that \<open>__init__\<close> creates, \<open>get_model_by_type\<close> returns
  \<open>None\<close> and writes nothing, so the next lookup returns \<open>None\<close> again. The default
  models are not determined by the catalogue: seeded at another time, with other
  identifiers from \<open>uuid4\<close>, they are other models. And when a model is uploaded before
  the first \<open>list_models\<close>, the catalogue is not empty at that call and nothing is
  seeded: there is no model of type FACE afterwards.
\<close>

theorem get_model_by_type_does_not_seed:
  "get_model_by_type fresh_registry ''DOCUMENT'' = None \<and>
   get_model_by_type
     (after_requests example_settings (\<lambda>f. ''.bin'') fresh_registry
        [(example_ambient 1 ''a'', GetModelByType ''DOCUMENT'')]) ''DOCUMENT'' = None \<and>
   fst (list_models (example_ambient 1 ''a'') fresh_registry) \<noteq>
   fst (list_models (example_ambient 2 ''b'') fresh_registry) \<and>
   get_model_by_type
     (after_requests example_settings (\<lambda>f. ''.bin'') fresh_registry
        [(example_ambient 1 ''a'',
          UploadModel ''RISK'' ''risk'' ''1.1.0'' \<lparr>filename = ''m.bin'', file_bytes = ''xyz''\<rparr>),
         (example_ambient 2 ''b'', ListModels)]) ''FACE'' = None"
  by (simp add: get_model_by_type_def fresh_registry_def init_def after_requests_def
      list_models_def create_default_models_def upload_model_def example_settings_def
      example_ambient_def Let_def)

section \<open>Feature engineering\<close>

lemma split_from_no_sep:
  "c \<notin> set s \<Longrightarrow> split_from [c] acc s = [acc @ s]"
  by (induction s arbitrary: acc) auto

lemma split_from_first_sep:
  "c \<notin> set l \<Longrightarrow> split_from [c] acc (l @ c # rest) = (acc @ l) # split_from [c] [] rest"
  by (induction l arbitrary: acc) auto

lemma is_substring_char: "is_substring [c] s = (c \<in> set s)"
  by (induction s) auto

lemma extract_email_domain_not_str:
  "(\<forall>s. email \<noteq> PStr s) \<Longrightarrow> extract_email_domain email = ''unknown''"
  by (cases email)
    (auto simp: extract_email_domain_def extract_email_domain_body_def contains_def
      str_split_def split: sum.splits)

lemmas extract_email_domain_defs =
  extract_email_domain_def extract_email_domain_body_def truthy_def contains_def
  str_split_def split_def item_def

text \<open>
  C6, as the code has it. \<open>extract_email_domain\<close> returns \<open>unknown\<close> for a value
  that is not a string (\<open>None\<close> among them) and for a string without \<open>@\<close> (the empty
  string among them). For a string with \<open>@\<close> it returns, in lower case, the text
  between the first \<open>@\<close> and the next one, or the end of the string when there is no
  second \<open>@\<close>: for a string with one \<open>@\<close> this is the text after the \<open>@\<close>.
\<close>

theorem extract_email_domain_cases:
  "((\<forall>s. email \<noteq> PStr s) \<longrightarrow> extract_email_domain email = ''unknown'') \<and>
   (CHR ''@'' \<notin> set s \<longrightarrow> extract_email_domain (PStr s) = ''unknown'') \<and>
   (CHR ''@'' \<notin> set l \<and> CHR ''@'' \<notin> set d \<longrightarrow>
      extract_email_domain (PStr (l @ ''@'' @ d)) = lower d \<and>
      extract_email_domain (PStr (l @ ''@'' @ d @ ''@'' @ rest)) = lower d)"
proof (intro conjI impI)
  assume "\<forall>s. email \<noteq> PStr s"
  then show "extract_email_domain email = ''unknown''"
    by (rule extract_email_domain_not_str)
next
  assume "CHR ''@'' \<notin> set s"
  then show "extract_email_domain (PStr s) = ''unknown''"
    by (simp add: extract_email_domain_def extract_email_domain_body_def contains_def
        is_substring_char)
next
  assume a: "CHR ''@'' \<notin> set l \<and> CHR ''@'' \<notin> set d"
  then show "extract_email_domain (PStr (l @ ''@'' @ d)) = lower d"
    by (simp add: extract_email_domain_defs is_substring_char split_from_first_sep
        split_from_no_sep)
  from a show "extract_email_domain (PStr (l @ ''@'' @ d @ ''@'' @ rest)) = lower d"
    by (simp add: extract_email_domain_defs is_substring_char split_from_first_sep
        split_from_no_sep)
qed

theorem extract_email_domain_cases_witness:
  "extract_email_domain PNone = ''unknown'' \<and>
   extract_email_domain (PStr ''example.com'') = ''unknown'' \<and>
   extract_email_domain (PStr ''a@Example.COM'') = ''example.com''"
  using extract_email_domain_cases [of PNone "''example.com''" "''a''" "''Example.COM''"]
  by (simp add: lower_def lower_char_def)

text \<open>
  C6, as stated, fails on malformed addresses that contain \<open>@\<close>: the result is not
  \<open>unknown\<close>, and for two \<open>@\<close> it is not the text after the first \<open>@\<close> either.
\<close>

theorem extract_email_domain_malformed:
  "extract_email_domain (PStr ''a@b@c'') = ''b'' \<and>
   extract_email_domain (PStr ''user@'') = [] \<and>
   extract_email_domain (PStr ''@'') = []"
  by (simp add: extract_email_domain_defs lower_def lower_char_def)

text \<open>
  C5, as the code has it. \<open>engineer_features\<close> is a function of the record and of the
  clock. Its result is the same at any two times when the \<open>date_of_birth\<close> of the
  record is missing or empty (the age is then \<open>None\<close>), and when the record has an
  entry \<open>created_at\<close> that is empty or such that pandas parses it and the date of
  birth without reading the clock.
\<close>

theorem engineer_features_clock:
  assumes "\<not> truthy (dict_get data ''date_of_birth'' PNone) \<or>
           (\<exists>created. map_of data ''created_at'' = Some created \<and>
              (\<not> truthy created \<or>
               reads_no_clock pd_to_datetime (dict_get data ''date_of_birth'' PNone) \<and>
               reads_no_clock pd_to_datetime created))"
  shows "engineer_features pd_to_datetime py_repr clock1 data =
         engineer_features pd_to_datetime py_repr clock2 data"
proof -
  let ?dob = "dict_get data ''date_of_birth'' PNone"
  have "calculate_age pd_to_datetime clock1 ?dob
          (dict_get data ''created_at'' (PStr (now_isoformat clock1))) =
        calculate_age pd_to_datetime clock2 ?dob
          (dict_get data ''created_at'' (PStr (now_isoformat clock2)))"
  proof (cases "truthy ?dob")
    case False
    then show ?thesis by (simp add: calculate_age_def calculate_age_body_def)
  next
    case True
    with assms obtain created where c: "map_of data ''created_at'' = Some created"
      and d: "\<not> truthy created \<or>
              reads_no_clock pd_to_datetime ?dob \<and> reads_no_clock pd_to_datetime created"
      by blast
    show ?thesis
    proof (cases "truthy created")
      case False
      with c show ?thesis by (simp add: dict_get_def calculate_age_def calculate_age_body_def)
    next
      case True
      with d have
        "pd_to_datetime (dob_reading clock1) ?dob = pd_to_datetime (dob_reading clock2) ?dob"
        "pd_to_datetime (created_reading clock1) created =
         pd_to_datetime (created_reading clock2) created"
        by (auto simp: reads_no_clock_def)
      then have "calculate_age_body pd_to_datetime clock1 ?dob created =
                 calculate_age_body pd_to_datetime clock2 ?dob created"
        unfolding calculate_age_body_def by (simp only:)
      with c show ?thesis
        by (simp add: dict_get_def calculate_age_def)
    qed
  qed
  then show ?thesis by (simp add: engineer_features_def)
qed

lemma example_reads_no_clock:
  "reads_no_clock example_to_datetime (PStr ''1990-01-01'')"
  "reads_no_clock example_to_datetime (PStr ''2020-01-01T00:00:00'')"
  by (simp_all add: reads_no_clock_def example_to_datetime_def)

theorem engineer_features_clock_witness:
  "engineer_features example_to_datetime (\<lambda>v. []) (example_clock 18262 ''2020-01-01T00:00:00'')
     ((''created_at'', PStr ''2020-01-01T00:00:00'') # example_record) =
   engineer_features example_to_datetime (\<lambda>v. []) (example_clock 18628 ''2021-01-01T00:00:00'')
     ((''created_at'', PStr ''2020-01-01T00:00:00'') # example_record)"
proof -
  have "\<exists>created.
          map_of ((''created_at'', PStr ''2020-01-01T00:00:00'') # example_record) ''created_at'' =
            Some created \<and>
          (\<not> truthy created \<or>
           reads_no_clock example_to_datetime
             (dict_get ((''created_at'', PStr ''2020-01-01T00:00:00'') # example_record)
                ''date_of_birth'' PNone) \<and>
           reads_no_clock example_to_datetime created)"
    by (simp add: example_reads_no_clock dict_get_def example_record_def)
  then show ?thesis by (intro engineer_features_clock disjI2)
qed

lemma example_clock_now: "now_isoformat (example_clock day isoformat) = isoformat"
  by (simp add: example_clock_def)

lemma example_ages:
  "calculate_age example_to_datetime (example_clock 18262 ''2020-01-01T00:00:00'')
     (PStr ''1990-01-01'') (PStr ''2020-01-01T00:00:00'') =
     PFloat (8443863983076407 / 2 ^ 48)"
  "calculate_age example_to_datetime (example_clock 18628 ''2021-01-01T00:00:00'')
     (PStr ''1990-01-01'') (PStr ''2021-01-01T00:00:00'') =
     PFloat (2181479234287993 / 2 ^ 46)"
  "calculate_age example_to_datetime (example_clock 18262 ''2020-01-01T00:00:00'')
     (PStr ''1990-01-01'') (PStr ''now'') =
     PFloat (8443863983076407 / 2 ^ 48)"
  "calculate_age example_to_datetime (example_clock 18628 ''2021-01-01T00:00:00'')
     (PStr ''1990-01-01'') (PStr ''now'') =
     PFloat (2181479234287993 / 2 ^ 46)"
  by (simp_all add: calculate_age_def calculate_age_body_def truthy_def example_to_datetime_def
      example_clock_def round_double_binade [of 4] round_half_even_def Let_def)

text \<open>
  C5, as stated, fails for a record with a date of birth and no \<open>created_at\<close>: the age
  is counted up to the clock reading, so two calls at different times give different
  feature sets (here the ages 29.998631074606433 and 31.000684462696782, the doubles
  nearest to 10957 / 365.25 and 11323 / 365.25). It fails as well for the same record
  with the \<open>created_at\<close> text \<open>now\<close>, for which pandas reads the clock.
\<close>

theorem engineer_features_depends_on_clock:
  "engineer_features example_to_datetime (\<lambda>v. []) (example_clock 18262 ''2020-01-01T00:00:00'')
     example_record \<noteq>
   engineer_features example_to_datetime (\<lambda>v. []) (example_clock 18628 ''2021-01-01T00:00:00'')
     example_record \<and>
   engineer_features example_to_datetime (\<lambda>v. []) (example_clock 18262 ''2020-01-01T00:00:00'')
     ((''created_at'', PStr ''now'') # example_record) \<noteq>
   engineer_features example_to_datetime (\<lambda>v. []) (example_clock 18628 ''2021-01-01T00:00:00'')
     ((''created_at'', PStr ''now'') # example_record)"
  by (simp add: engineer_features_def example_record_def dict_get_def example_ages
      combine_location_def invert_risk_score_def truthy_def example_clock_now)

section \<open>Scaling at scoring time\<close>

lemma transpose_single_row: "transpose [x] = map (\<lambda>v. [v]) x"
  by (induction x) (simp_all add: transpose.simps)

lemma fit_single_row: "fit [x] = \<lparr>mean = x, scale = map (\<lambda>v. 1) x\<rparr>"
  by (simp add: fit_def transpose_single_row column_mean_def column_var_def
      handle_zeros_in_scale_def comp_def)



lemma lookup_all_example:
  "lookup_all (numeric example_transaction) feature_names =
     Inr [120, 3, 80, 0.5, 30, 2, 0.2, 0.1, 1, 0, 0, 0, 0, 0]"
  by (simp add: example_transaction_def feature_names_def)

text \<open>
  C8. The class of the AML script scales with \<open>self.scaler.fit_transform\<close>: every call
  of \<open>preprocess_features\<close>, and so every call of \<open>predict\<close>, fits the scaler on the
  row of the request. A scaler with means 100 and scales 10 before the call has the
  row of the request as its means and the scales 1 after it, and the scaled row is
  all zeros.
\<close>

theorem aml_preprocess_features_refits_scaler:
  "aml_preprocess_features example_sklearn
     \<lparr>model_path = ''fraud_model.joblib'', model = [1],
      scaler = Some \<lparr>mean = replicate 14 100, scale = replicate 14 10\<rparr>\<rparr>
     example_transaction =
   (Inr [0, 0, 0, 0, 0, 0, 0, 0, 0, 0, 0, 0, 0, 0],
    \<lparr>model_path = ''fraud_model.joblib'', model = [1],
     scaler = Some \<lparr>mean = [120, 3, 80, 0.5, 30, 2, 0.2, 0.1, 1, 0, 0, 0, 0, 0],
                    scale = [1, 1, 1, 1, 1, 1, 1, 1, 1, 1, 1, 1, 1, 1]\<rparr>\<rparr>)"
  by (simp add: aml_preprocess_features_def fit_single_row transform_row_def Let_def
      example_transaction_def example_sklearn_def feature_names_def)

section \<open>Risk factors\<close>









text \<open>The decimal 0.995 stands for a double below it and is printed as 0.99.\<close>

lemma double_2f_below_tie: "double_2f 0.995 = ''0.99''"
proof -
  have r: "round_double 0.995 = 8962163258467287 / 2 ^ 53"
    by (simp add: round_double_binade [of "- 1"] round_half_even_def Let_def)
  show ?thesis
    unfolding double_2f_def r by (simp add: decimal_2f_def round_half_even_def Let_def)
qed



end
